theory Spec2Isabelle
  imports Main
begin

section \<open>The response envelope and its dispatcher (pkg/courierhttp/payload.go)\<close>

subsection \<open>Values and their capabilities\<close>

text \<open>
  The envelope holds a Go value of type \<open>any\<close>. The dispatcher looks at it only through
  type assertions, so a non-nil value is described by the interfaces it satisfies and by
  what the methods the dispatcher calls return. A field is \<open>None\<close> when the value does not
  have the method. \<open>RedirectDescriber\<close> embeds \<open>StatusCodeDescriber\<close>: a value satisfies it
  when it has both \<open>StatusCode()\<close> and \<open>Location()\<close>; \<open>Location()\<close> returns a pointer, which may be nil.
  URLs, cookies and errors are written as strings (the location's \<open>String()\<close>, the cookie's
  rendering, the error's message).
\<close>

type_synonym url = string
type_synonym cookie = string
type_synonym err = string

record dyn =
  writeResponseM :: "err option option"  \<comment> \<open>\<open>ResponseWriter\<close>: what the value's own \<open>WriteResponse\<close> returns\<close>
  isError :: bool                        \<comment> \<open>the value satisfies \<open>error\<close>\<close>
  statusCodeM :: "int option"            \<comment> \<open>\<open>StatusCode() int\<close>\<close>
  locationM :: "url option option"       \<comment> \<open>\<open>Location() *url.URL\<close>\<close>
  contentTypeM :: "string option"        \<comment> \<open>\<open>ContentType() string\<close> (\<open>ContentTypeDescriber\<close>)\<close>
  intoM :: "err option option"           \<comment> \<open>\<open>courier.Result\<close>: the error of \<open>Into(rw)\<close>\<close>
  readM :: "err option option"           \<comment> \<open>\<open>io.Reader\<close>: the error of \<open>io.Copy(rw, v)\<close>\<close>
  isCloser :: bool                       \<comment> \<open>the value satisfies \<open>io.Closer\<close>\<close>

datatype val = NilValue | Dyn dyn

text \<open>The request: the dispatcher reads its method only (and hands the request to \<open>http.Redirect\<close>).\<close>

record request =
  req_Method :: string

text \<open>
  The collaborators of the dispatcher that are not part of this file of the source:
  \<open>statuserror.FromErr\<close>, \<open>transformer.NewTransformer\<close> (keyed by the value's type and the MIME
  option; \<open>None\<close> is success) and the transformer's \<open>EncodeTo\<close> (which gets the status code
  through the context).
\<close>

record collab =
  fromErr :: "dyn \<Rightarrow> dyn"
  newTransformer :: "val \<Rightarrow> string \<Rightarrow> err option"
  encodeTo :: "val \<Rightarrow> string \<Rightarrow> int \<Rightarrow> err option"

text \<open>
  What the dispatcher does to the transport and to the codec, as the list of its calls in order.
  \<open>rw.Header().Set(k, v)\<close> and \<open>header[k] = values\<close> are both \<open>HeaderSet\<close>.
\<close>

datatype event =
    Delegated                       \<comment> \<open>\<open>respWriter.WriteResponse(ctx, rw, req)\<close>\<close>
  | HeaderSet string "string list"  \<comment> \<open>\<open>header[key] = values\<close>\<close>
  | CookieSet cookie                \<comment> \<open>\<open>http.SetCookie(rw, cookie)\<close>\<close>
  | Redirected url int              \<comment> \<open>\<open>http.Redirect(rw, req, location, status)\<close>\<close>
  | HeaderWritten int               \<comment> \<open>\<open>rw.WriteHeader(status)\<close>\<close>
  | ResultInto                      \<comment> \<open>\<open>v.Into(rw)\<close>\<close>
  | Copied                          \<comment> \<open>\<open>io.Copy(rw, v)\<close>\<close>
  | Closed                          \<comment> \<open>\<open>c.Close()\<close>\<close>
  | TransformerFor string           \<comment> \<open>\<open>transformer.NewTransformer\<close> with this MIME\<close>
  | Encoded string int              \<comment> \<open>\<open>tf.EncodeTo\<close>: the transformer's MIME and the status in the context\<close>

subsection \<open>The envelope\<close>

text \<open>
  \<open>response[T]\<close>. \<open>meta\<close> is a Go map (nil until the first \<open>SetMetadata\<close>): an association list
  with one entry per key, whose order stands for the order in which \<open>range\<close> happens to visit the map.
\<close>

record response =
  resp_v :: val
  resp_meta :: "(string \<times> string list) list option"
  resp_cookies :: "cookie option list option"
  resp_location :: "url option"
  resp_contentType :: string
  resp_statusCode :: int

definition SetStatusCode :: "int \<Rightarrow> response \<Rightarrow> response" where
  "SetStatusCode statusCode r = r\<lparr>resp_statusCode := statusCode\<rparr>"

definition SetContentType :: "string \<Rightarrow> response \<Rightarrow> response" where
  "SetContentType contentType r = r\<lparr>resp_contentType := contentType\<rparr>"

fun assign :: "'k \<Rightarrow> 'v \<Rightarrow> ('k \<times> 'v) list \<Rightarrow> ('k \<times> 'v) list" where
  "assign k x [] = [(k, x)]"
| "assign k x ((k', y) # m) = (if k' = k then (k, x) # m else (k', y) # assign k x m)"

definition SetMetadata :: "string \<Rightarrow> string list \<Rightarrow> response \<Rightarrow> response" where
  "SetMetadata key values r =
     r\<lparr>resp_meta := Some (assign key values (case resp_meta r of None \<Rightarrow> [] | Some m \<Rightarrow> m))\<rparr>"

definition SetCookies :: "cookie option list option \<Rightarrow> response \<Rightarrow> response" where
  "SetCookies cookies r = r\<lparr>resp_cookies := cookies\<rparr>"

definition SetLocation :: "url option \<Rightarrow> response \<Rightarrow> response" where
  "SetLocation location r = r\<lparr>resp_location := location\<rparr>"

definition WithStatusCode :: "int \<Rightarrow> response \<Rightarrow> response" where
  "WithStatusCode statusCode = SetStatusCode statusCode"

definition WithCookies :: "cookie option list option \<Rightarrow> response \<Rightarrow> response" where
  "WithCookies cookies = SetCookies cookies"

definition WithContentType :: "string \<Rightarrow> response \<Rightarrow> response" where
  "WithContentType contentType = SetContentType contentType"

definition WithMetadata :: "string \<Rightarrow> string list \<Rightarrow> response \<Rightarrow> response" where
  "WithMetadata key values = SetMetadata key values"

definition Wrap :: "val \<Rightarrow> (response \<Rightarrow> response) list \<Rightarrow> response" where
  "Wrap x opts =
     fold (\<lambda>opt resp. opt resp) opts
       \<lparr>resp_v = x, resp_meta = None, resp_cookies = None, resp_location = None,
        resp_contentType = [], resp_statusCode = 0\<rparr>"

text \<open>\<open>Underlying\<close> is the type assertion \<open>r.v.(T)\<close>, which panics on a nil interface: \<open>None\<close>.\<close>

definition Underlying :: "response \<Rightarrow> dyn option" where
  "Underlying r = (case resp_v r of NilValue \<Rightarrow> None | Dyn d \<Rightarrow> Some d)"

definition StatusCode :: "response \<Rightarrow> int" where
  "StatusCode r = resp_statusCode r"

definition ContentType :: "response \<Rightarrow> string" where
  "ContentType r = resp_contentType r"

subsection \<open>Header keys\<close>

text \<open>
  \<open>textproto.CanonicalMIMEHeaderKey\<close> of Go's standard library: a key with a byte that is not a
  header token byte is returned unchanged; otherwise the first letter and every letter after
  a hyphen are upper case and the others lower case.
\<close>

definition lowers :: string where "lowers = ''abcdefghijklmnopqrstuvwxyz''"
definition uppers :: string where "uppers = ''ABCDEFGHIJKLMNOPQRSTUVWXYZ''"

definition validHeaderFieldByte :: "char \<Rightarrow> bool" where
  "validHeaderFieldByte c \<longleftrightarrow> c \<in> set (lowers @ uppers @ ''0123456789!#$%&*+-.^_|~'' @ [CHR 0x27, CHR 0x60])"

definition toUpperByte :: "char \<Rightarrow> char" where
  "toUpperByte c = (case map_of (zip lowers uppers) c of Some u \<Rightarrow> u | None \<Rightarrow> c)"

definition toLowerByte :: "char \<Rightarrow> char" where
  "toLowerByte c = (case map_of (zip uppers lowers) c of Some l \<Rightarrow> l | None \<Rightarrow> c)"

fun canonicalCase :: "bool \<Rightarrow> string \<Rightarrow> string" where
  "canonicalCase upper [] = []"
| "canonicalCase upper (c # cs) =
     (let c' = (if upper then toUpperByte c else toLowerByte c)
      in c' # canonicalCase (c' = CHR ''-'') cs)"

definition CanonicalMIMEHeaderKey :: "string \<Rightarrow> string" where
  "CanonicalMIMEHeaderKey s = (if list_all validHeaderFieldByte s then canonicalCase True s else s)"

subsection \<open>Type assertions\<close>

text \<open>
  What each type assertion of \<open>WriteResponse\<close> finds: nothing on a nil interface, and the method's
  result on a value that has the method.
\<close>

fun asResponseWriter :: "val \<Rightarrow> err option option" where
  "asResponseWriter NilValue = None"
| "asResponseWriter (Dyn d) = writeResponseM d"

fun isErrorValue :: "val \<Rightarrow> bool" where
  "isErrorValue NilValue = False"
| "isErrorValue (Dyn d) = isError d"

fun statusCodeOf :: "val \<Rightarrow> int option" where
  "statusCodeOf NilValue = None"
| "statusCodeOf (Dyn d) = statusCodeM d"

fun locationOf :: "val \<Rightarrow> url option option" where
  "locationOf NilValue = None"
| "locationOf (Dyn d) = locationM d"

text \<open>\<open>resp.(RedirectDescriber)\<close>: the value has both methods; the result is what they return.\<close>

definition asRedirectDescriber :: "val \<Rightarrow> (int \<times> url option) option" where
  "asRedirectDescriber x =
     (case statusCodeOf x of None \<Rightarrow> None
      | Some s \<Rightarrow> (case locationOf x of None \<Rightarrow> None | Some l \<Rightarrow> Some (s, l)))"

fun asResult :: "val \<Rightarrow> err option option" where
  "asResult NilValue = None"
| "asResult (Dyn d) = intoM d"

fun asReader :: "val \<Rightarrow> (err option \<times> bool) option" where
  "asReader NilValue = None"
| "asReader (Dyn d) = (case readM d of None \<Rightarrow> None | Some e \<Rightarrow> Some (e, isCloser d))"

text \<open>The value is a \<open>ResponseWriter\<close>: \<open>WriteResponse\<close> hands the whole response over to it.\<close>

definition delegates :: "val \<Rightarrow> bool" where
  "delegates x \<longleftrightarrow> asResponseWriter x \<noteq> None"

subsection \<open>WriteResponse\<close>

text \<open>Lines 178 to 182: an error is replaced by \<open>statuserror.FromErr\<close> of it.\<close>

fun converted :: "collab \<Rightarrow> val \<Rightarrow> val" where
  "converted c NilValue = NilValue"
| "converted c (Dyn d) = (if isError d then Dyn (fromErr c d) else Dyn d)"

text \<open>Lines 184 to 186: the status of a \<open>StatusCodeDescriber\<close> is set, whatever the envelope holds.\<close>

definition adoptStatusCode :: "val \<Rightarrow> response \<Rightarrow> response" where
  "adoptStatusCode resp r =
     (case statusCodeOf resp of None \<Rightarrow> r | Some s \<Rightarrow> SetStatusCode s r)"

text \<open>Lines 188 to 198: the default status when none is set.\<close>

definition defaultStatusCode :: "request \<Rightarrow> val \<Rightarrow> response \<Rightarrow> response" where
  "defaultStatusCode req resp r =
     (if resp_statusCode r = 0 then
        (if resp = NilValue then SetStatusCode 204 r
         else if req_Method req = ''POST'' then SetStatusCode 201 r
         else SetStatusCode 200 r)
      else r)"

text \<open>Lines 200 to 205: without a location of the envelope's own, a \<open>RedirectDescriber\<close> gives status and location.\<close>

definition adoptRedirect :: "val \<Rightarrow> response \<Rightarrow> response" where
  "adoptRedirect resp r =
     (if resp_location r = None then
        (case asRedirectDescriber resp of None \<Rightarrow> r
         | Some (s, l) \<Rightarrow> SetLocation l (SetStatusCode s r))
      else r)"

text \<open>Lines 184 to 205 together: the envelope with its status and location resolved.\<close>

definition resolved :: "request \<Rightarrow> val \<Rightarrow> response \<Rightarrow> response" where
  "resolved req resp r = adoptRedirect resp (defaultStatusCode req resp (adoptStatusCode resp r))"

text \<open>Lines 207 to 212.\<close>

definition metaEvents :: "response \<Rightarrow> event list" where
  "metaEvents r =
     (case resp_meta r of None \<Rightarrow> []
      | Some m \<Rightarrow> map (\<lambda>(key, values). HeaderSet (CanonicalMIMEHeaderKey key) values) m)"

text \<open>Lines 214 to 221: nil cookies are skipped.\<close>

definition cookieEvents :: "response \<Rightarrow> event list" where
  "cookieEvents r =
     (case resp_cookies r of None \<Rightarrow> []
      | Some cs \<Rightarrow> concat (map (\<lambda>cookie. case cookie of None \<Rightarrow> [] | Some ck \<Rightarrow> [CookieSet ck]) cs))"

text \<open>
  Lines 237 to 263, the type switch: a \<open>courier.Result\<close> first, then an \<open>io.Reader\<close> (closed by the
  deferred function when it is an \<open>io.Closer\<close>, whatever the copy returned), then the codec, which
  gets the MIME and, through the context, the status code.
\<close>

definition writeBody :: "collab \<Rightarrow> val \<Rightarrow> string \<Rightarrow> int \<Rightarrow> err option \<times> event list" where
  "writeBody c resp contentType statusCode =
     (case asResult resp of
        Some e \<Rightarrow> (e, [HeaderWritten statusCode, ResultInto])
      | None \<Rightarrow>
         (case asReader resp of
            Some (e, closer) \<Rightarrow>
              (e, [HeaderWritten statusCode, Copied] @ (if closer then [Closed] else []))
          | None \<Rightarrow>
              (case newTransformer c resp contentType of
                 Some e \<Rightarrow> (Some e, [TransformerFor contentType])
               | None \<Rightarrow>
                  (encodeTo c resp contentType statusCode,
                   [TransformerFor contentType, Encoded contentType statusCode]))))"

text \<open>Lines 207 to 263, once the status and the location are resolved.\<close>

definition respond :: "collab \<Rightarrow> val \<Rightarrow> response \<Rightarrow> err option \<times> event list" where
  "respond c resp r =
     (case resp_location r of
        Some l \<Rightarrow> (None, metaEvents r @ cookieEvents r @ [Redirected l (resp_statusCode r)])
      | None \<Rightarrow>
         if resp_statusCode r = 204
         then (None, metaEvents r @ cookieEvents r @ [HeaderWritten (resp_statusCode r)])
         else
           (fst (writeBody c resp (resp_contentType r) (resp_statusCode r)),
            metaEvents r @ cookieEvents r @
            (if resp_contentType r \<noteq> [] then [HeaderSet ''Content-Type'' [resp_contentType r]] else []) @
            snd (writeBody c resp (resp_contentType r) (resp_statusCode r))))"

text \<open>
  \<open>WriteResponse\<close> returns its error, the envelope as it leaves it and the calls it made.
  The deferred function sets \<open>r.v\<close> to nil on every path.
\<close>

definition WriteResponse :: "collab \<Rightarrow> request \<Rightarrow> response \<Rightarrow> err option \<times> response \<times> event list" where
  "WriteResponse c req r =
     (case asResponseWriter (resp_v r) of
        Some e \<Rightarrow> (e, r\<lparr>resp_v := NilValue\<rparr>, [Delegated])
      | None \<Rightarrow>
         (fst (respond c (converted c (resp_v r)) (resolved req (converted c (resp_v r)) r)),
          (resolved req (converted c (resp_v r)) r)\<lparr>resp_v := NilValue\<rparr>,
          snd (respond c (converted c (resp_v r)) (resolved req (converted c (resp_v r)) r))))"

text \<open>The status an event hands to the transport or to the codec, and the MIME it asks the codec for.\<close>

fun eventStatus :: "event \<Rightarrow> int option" where
  "eventStatus (Redirected l s) = Some s"
| "eventStatus (HeaderWritten s) = Some s"
| "eventStatus (Encoded m s) = Some s"
| "eventStatus ev = None"

fun eventMIME :: "event \<Rightarrow> string option" where
  "eventMIME (TransformerFor m) = Some m"
| "eventMIME (Encoded m s) = Some m"
| "eventMIME ev = None"

fun isBodyEvent :: "event \<Rightarrow> bool" where
  "isBodyEvent ResultInto = True"
| "isBodyEvent Copied = True"
| "isBodyEvent (TransformerFor m) = True"
| "isBodyEvent (Encoded m s) = True"
| "isBodyEvent ev = False"

text \<open>A value with none of the capabilities, and collaborators for the examples: every error becomes
  a status error of code 500, and the codec never fails.\<close>

definition plainValue :: dyn where
  "plainValue = \<lparr>writeResponseM = None, isError = False, statusCodeM = None, locationM = None,
     contentTypeM = None, intoM = None, readM = None, isCloser = False\<rparr>"

definition plainCollab :: collab where
  "plainCollab = \<lparr>fromErr = (\<lambda>d. plainValue\<lparr>isError := True, statusCodeM := Some 500\<rparr>),
     newTransformer = (\<lambda>x m. None), encodeTo = (\<lambda>x m s. None)\<rparr>"

text \<open>The collaborators do not tell two values apart that differ in what \<open>ContentType()\<close> returns.\<close>

definition blindToContentType :: "collab \<Rightarrow> string option \<Rightarrow> bool" where
  "blindToContentType c ct \<longleftrightarrow>
     (\<forall>d. fromErr c (d\<lparr>contentTypeM := ct\<rparr>) = fromErr c d) \<and>
     (\<forall>d m. newTransformer c (Dyn (d\<lparr>contentTypeM := ct\<rparr>)) m = newTransformer c (Dyn d) m) \<and>
     (\<forall>d m s. encodeTo c (Dyn (d\<lparr>contentTypeM := ct\<rparr>)) m s = encodeTo c (Dyn d) m s)"

section \<open>Properties of the dispatcher\<close>

lemmas setters = SetStatusCode_def SetContentType_def SetLocation_def SetCookies_def SetMetadata_def
  WithStatusCode_def WithContentType_def WithCookies_def WithMetadata_def

lemmas dispatch_defs = WriteResponse_def resolved_def adoptStatusCode_def defaultStatusCode_def
  adoptRedirect_def asRedirectDescriber_def respond_def writeBody_def metaEvents_def cookieEvents_def
  Wrap_def plainValue_def plainCollab_def delegates_def StatusCode_def ContentType_def Underlying_def

lemmas header_defs = CanonicalMIMEHeaderKey_def validHeaderFieldByte_def lowers_def uppers_def
  toUpperByte_def toLowerByte_def Let_def

lemma metaEvents_plain:
  assumes "ev \<in> set (metaEvents r)"
  shows "eventStatus ev = None" and "eventMIME ev = None" and "\<not> isBodyEvent ev"
  using assms by (auto simp: metaEvents_def split: option.splits)

lemma cookieEvents_plain:
  assumes "ev \<in> set (cookieEvents r)"
  shows "eventStatus ev = None" and "eventMIME ev = None" and "\<not> isBodyEvent ev"
    and "ev \<noteq> HeaderSet k vs"
  using assms by (auto simp: cookieEvents_def split: option.splits)

lemma writeBody_events:
  assumes "ev \<in> set (snd (writeBody c resp ct st))"
  shows "eventStatus ev = None \<or> eventStatus ev = Some st"
    and "eventMIME ev = None \<or> eventMIME ev = Some ct"
    and "ev \<noteq> HeaderSet k vs"
  using assms by (auto simp: writeBody_def split: option.splits if_splits)

lemma respond_events:
  assumes "ev \<in> set (snd (respond c resp r))"
  shows "(eventStatus ev = None \<or> eventStatus ev = Some (resp_statusCode r)) \<and>
     (eventMIME ev = None \<or> eventMIME ev = Some (resp_contentType r))"
proof -
  consider (hdr) "ev \<in> set (metaEvents r)" | (ck) "ev \<in> set (cookieEvents r)"
    | (red) l where "ev = Redirected l (resp_statusCode r)"
    | (hw) "ev = HeaderWritten (resp_statusCode r)"
    | (ct) "ev = HeaderSet ''Content-Type'' [resp_contentType r]"
    | (body) "ev \<in> set (snd (writeBody c resp (resp_contentType r) (resp_statusCode r)))"
    using assms by (auto simp: respond_def split: option.splits if_splits)
  then show ?thesis
  proof cases
    case hdr
    then show ?thesis by (simp add: metaEvents_plain)
  next
    case ck
    then show ?thesis by (simp add: cookieEvents_plain)
  next
    case body
    then show ?thesis using writeBody_events(1,2) by blast
  qed simp_all
qed

lemma resolved_frame:
  "resp_contentType (resolved req resp r) = resp_contentType r"
  "resp_meta (resolved req resp r) = resp_meta r"
  "resp_cookies (resolved req resp r) = resp_cookies r"
  by (simp_all add: resolved_def adoptRedirect_def defaultStatusCode_def adoptStatusCode_def setters
      split: option.splits prod.splits)

lemma resolved_events:
  "metaEvents (resolved req resp r) = metaEvents r"
  "cookieEvents (resolved req resp r) = cookieEvents r"
  by (simp_all add: metaEvents_def cookieEvents_def resolved_frame)

lemma WriteResponse_delegated:
  "delegates (resp_v r) \<Longrightarrow>
   WriteResponse c req r = (the (asResponseWriter (resp_v r)), r\<lparr>resp_v := NilValue\<rparr>, [Delegated])"
  by (auto simp: WriteResponse_def delegates_def)

lemma WriteResponse_not_delegated:
  "\<not> delegates (resp_v r) \<Longrightarrow>
   WriteResponse c req r =
     (fst (respond c (converted c (resp_v r)) (resolved req (converted c (resp_v r)) r)),
      (resolved req (converted c (resp_v r)) r)\<lparr>resp_v := NilValue\<rparr>,
      snd (respond c (converted c (resp_v r)) (resolved req (converted c (resp_v r)) r)))"
  by (simp add: WriteResponse_def delegates_def)

lemma WriteResponse_events:
  assumes "ev \<in> set (snd (snd (WriteResponse c req r)))"
  shows "(eventStatus ev = None \<or> eventStatus ev = Some (resp_statusCode (fst (snd (WriteResponse c req r))))) \<and>
     (eventMIME ev = None \<or> eventMIME ev = Some (resp_contentType r))"
proof (cases "delegates (resp_v r)")
  case True
  with assms show ?thesis by (simp add: WriteResponse_delegated)
next
  case False
  with assms respond_events [of ev c "converted c (resp_v r)" "resolved req (converted c (resp_v r)) r"]
  show ?thesis by (simp add: WriteResponse_not_delegated resolved_frame)
qed


lemma resolved_no_capability:
  assumes "statusCodeOf resp = None"
  shows "resp_statusCode (resolved req resp r) =
    (if resp_statusCode r \<noteq> 0 then resp_statusCode r
     else if resp = NilValue then 204 else if req_Method req = ''POST'' then 201 else 200)"
  using assms
  by (simp add: resolved_def adoptRedirect_def asRedirectDescriber_def defaultStatusCode_def
      adoptStatusCode_def setters)





text \<open>
  C2 (as amended): for an envelope with no explicit status whose value is not a \<open>ResponseWriter\<close>,
  is not an error and has no \<open>StatusCode()\<close> (hence is no \<open>RedirectDescriber\<close> either), the final
  status is 204 for nil, 201 for a non-nil value on POST and 200 for a non-nil value on any other
  method; the transport and the codec get no other status.
\<close>

theorem WriteResponse_default_status:
  assumes "WriteResponse c req r = (e, r', evs)"
    and "\<not> delegates (resp_v r)"
    and "\<not> isErrorValue (resp_v r)"
    and "statusCodeOf (resp_v r) = None"
    and "resp_statusCode r = 0"
  shows "resp_statusCode r' =
           (if resp_v r = NilValue then 204 else if req_Method req = ''POST'' then 201 else 200) \<and>
         (\<forall>ev\<in>set evs. eventStatus ev = None \<or> eventStatus ev = Some (resp_statusCode r'))"
proof -
  have same: "converted c (resp_v r) = resp_v r"
    using assms(3) by (cases "resp_v r") simp_all
  have "resp_statusCode r' = resp_statusCode (resolved req (resp_v r) r)"
    using assms(1,2) by (auto simp: WriteResponse_not_delegated same)
  then have st: "resp_statusCode r' =
      (if resp_v r = NilValue then 204 else if req_Method req = ''POST'' then 201 else 200)"
    using assms(4,5) by (simp add: resolved_no_capability)
  have "\<forall>ev\<in>set evs. eventStatus ev = None \<or> eventStatus ev = Some (resp_statusCode r')"
    using WriteResponse_events [of _ c req r] assms(1) by simp
  with st show ?thesis by simp
qed

theorem WriteResponse_default_status_witness:
  "WriteResponse plainCollab \<lparr>req_Method = ''POST''\<rparr> (Wrap (Dyn plainValue) [])
     = (None, Wrap NilValue [WithStatusCode 201], [TransformerFor [], Encoded [] 201]) \<and>
   WriteResponse plainCollab \<lparr>req_Method = ''GET''\<rparr> (Wrap (Dyn plainValue) [])
     = (None, Wrap NilValue [WithStatusCode 200], [TransformerFor [], Encoded [] 200]) \<and>
   WriteResponse plainCollab \<lparr>req_Method = ''POST''\<rparr> (Wrap NilValue [])
     = (None, Wrap NilValue [WithStatusCode 204], [HeaderWritten 204]) \<and>
   resp_statusCode (Wrap NilValue [WithStatusCode 201]) = 201"
proof -
  have run: "WriteResponse plainCollab \<lparr>req_Method = ''POST''\<rparr> (Wrap (Dyn plainValue) [])
     = (None, Wrap NilValue [WithStatusCode 201], [TransformerFor [], Encoded [] 201])"
    by (simp add: dispatch_defs setters)
  have "resp_statusCode (Wrap NilValue [WithStatusCode 201]) = 201"
    using WriteResponse_default_status [OF run] by (simp add: dispatch_defs setters)
  then show ?thesis
    using run by (simp add: dispatch_defs setters)
qed

text \<open>
  C2 as stated fails for a value that is a \<open>ResponseWriter\<close>: it is not an error and has neither
  capability, the envelope has no status, and \<open>WriteResponse\<close> only delegates; the status stays 0.
\<close>

theorem responder_status_unresolved_counterexample:
  "\<not> isErrorValue (Dyn (plainValue\<lparr>writeResponseM := Some None\<rparr>)) \<and>
   statusCodeOf (Dyn (plainValue\<lparr>writeResponseM := Some None\<rparr>)) = None \<and>
   asRedirectDescriber (Dyn (plainValue\<lparr>writeResponseM := Some None\<rparr>)) = None \<and>
   StatusCode (Wrap (Dyn (plainValue\<lparr>writeResponseM := Some None\<rparr>)) []) = 0 \<and>
   WriteResponse plainCollab \<lparr>req_Method = ''GET''\<rparr>
     (Wrap (Dyn (plainValue\<lparr>writeResponseM := Some None\<rparr>)) [])
   = (None, Wrap NilValue [], [Delegated]) \<and>
   StatusCode (Wrap NilValue []) = 0"
  by (simp add: dispatch_defs setters)

text \<open>
  C3 (as amended): when the value is not a \<open>ResponseWriter\<close>, the envelope has no location of its
  own, and the (error-converted) value is a \<open>RedirectDescriber\<close> whose \<open>Location()\<close> is not nil,
  \<open>WriteResponse\<close> ends with that status and location, issues the redirect after the metadata
  headers and the cookies, returns no error, and no body-writing step runs.
\<close>

theorem WriteResponse_redirect:
  assumes "\<not> delegates (resp_v r)"
    and "asRedirectDescriber (converted c (resp_v r)) = Some (s, Some l)"
    and "resp_location r = None"
  shows "WriteResponse c req r =
           (None, r\<lparr>resp_v := NilValue, resp_location := Some l, resp_statusCode := s\<rparr>,
            metaEvents r @ cookieEvents r @ [Redirected l s]) \<and>
         \<not> list_ex isBodyEvent (metaEvents r @ cookieEvents r @ [Redirected l s])"
proof -
  let ?resp = "converted c (resp_v r)"
  have r3: "resolved req ?resp r = r\<lparr>resp_location := Some l, resp_statusCode := s\<rparr>"
    using assms(2,3)
    by (simp add: resolved_def adoptRedirect_def defaultStatusCode_def adoptStatusCode_def setters
        split: option.splits)
  have "respond c ?resp (resolved req ?resp r) =
      (None, metaEvents (resolved req ?resp r) @ cookieEvents (resolved req ?resp r) @ [Redirected l s])"
    by (simp add: respond_def r3)
  then have "respond c ?resp (resolved req ?resp r) = (None, metaEvents r @ cookieEvents r @ [Redirected l s])"
    by (simp only: resolved_events)
  then have run: "WriteResponse c req r =
           (None, r\<lparr>resp_v := NilValue, resp_location := Some l, resp_statusCode := s\<rparr>,
            metaEvents r @ cookieEvents r @ [Redirected l s])"
    using assms(1) by (simp add: WriteResponse_not_delegated r3)
  have "\<not> list_ex isBodyEvent (metaEvents r @ cookieEvents r @ [Redirected l s])"
    by (auto simp: list_ex_iff metaEvents_plain cookieEvents_plain)
  with run show ?thesis by simp
qed

theorem WriteResponse_redirect_witness:
  "WriteResponse plainCollab \<lparr>req_Method = ''GET''\<rparr>
     (Wrap (Dyn (plainValue\<lparr>statusCodeM := Some 302, locationM := Some (Some ''/login'')\<rparr>))
        [WithCookies (Some [Some ''sid=1'', None])])
   = (None,
      Wrap NilValue [WithCookies (Some [Some ''sid=1'', None]), SetLocation (Some ''/login''), WithStatusCode 302],
      [CookieSet ''sid=1'', Redirected ''/login'' 302])"
  using WriteResponse_redirect [of "Wrap (Dyn (plainValue\<lparr>statusCodeM := Some 302, locationM := Some (Some ''/login'')\<rparr>))
        [WithCookies (Some [Some ''sid=1'', None])]" plainCollab 302 "''/login''" "\<lparr>req_Method = ''GET''\<rparr>"]
  by (simp add: dispatch_defs setters)

text \<open>
  C3 as stated fails in three ways, each with a value that has both \<open>StatusCode()\<close> and
  \<open>Location()\<close> and an envelope without a location: \<open>Location()\<close> returns nil (the codec runs, no
  redirect); the value is an error (the converted status error is looked at instead); the value
  is a \<open>ResponseWriter\<close> (the response is delegated).
\<close>

theorem redirect_not_issued_counterexample:
  "WriteResponse plainCollab \<lparr>req_Method = ''GET''\<rparr>
     (Wrap (Dyn (plainValue\<lparr>statusCodeM := Some 302, locationM := Some None\<rparr>)) [])
   = (None, Wrap NilValue [WithStatusCode 302], [TransformerFor [], Encoded [] 302]) \<and>
   WriteResponse plainCollab \<lparr>req_Method = ''GET''\<rparr>
     (Wrap (Dyn (plainValue\<lparr>isError := True, statusCodeM := Some 302, locationM := Some (Some ''/login'')\<rparr>)) [])
   = (None, Wrap NilValue [WithStatusCode 500], [TransformerFor [], Encoded [] 500]) \<and>
   WriteResponse plainCollab \<lparr>req_Method = ''GET''\<rparr>
     (Wrap (Dyn (plainValue\<lparr>writeResponseM := Some None, statusCodeM := Some 302,
        locationM := Some (Some ''/login'')\<rparr>)) [])
   = (None, Wrap NilValue [], [Delegated])"
  by (simp add: dispatch_defs setters)


lemma cookieEvents_no_header: "HeaderSet k vs \<notin> set (cookieEvents r)"
  by (auto simp: cookieEvents_def split: option.splits)

lemma writeBody_no_header: "HeaderSet k vs \<notin> set (snd (writeBody c resp ct st))"
  by (auto simp: writeBody_def split: option.splits)

lemma respond_no_ContentType_header:
  assumes "resp_contentType r = []"
    and "\<forall>vs. HeaderSet ''Content-Type'' vs \<notin> set (metaEvents r)"
  shows "HeaderSet ''Content-Type'' vs \<notin> set (snd (respond c resp r))"
  using assms
  by (simp add: respond_def cookieEvents_no_header writeBody_no_header split: option.splits)

lemma WriteResponse_no_ContentType_header:
  assumes "resp_contentType r = []"
    and "\<forall>vs. HeaderSet ''Content-Type'' vs \<notin> set (metaEvents r)"
  shows "HeaderSet ''Content-Type'' vs \<notin> set (snd (snd (WriteResponse c req r)))"
proof (cases "delegates (resp_v r)")
  case True
  then show ?thesis by (simp add: WriteResponse_delegated)
next
  case False
  have "HeaderSet ''Content-Type'' vs \<notin>
      set (snd (respond c (converted c (resp_v r)) (resolved req (converted c (resp_v r)) r)))"
    using assms by (intro respond_no_ContentType_header) (simp_all add: resolved_frame resolved_events)
  with False show ?thesis by (simp add: WriteResponse_not_delegated)
qed

lemma adoptStatusCode_resp_v:
  "adoptStatusCode resp (r\<lparr>resp_v := x\<rparr>) = (adoptStatusCode resp r)\<lparr>resp_v := x\<rparr>"
  by (simp add: adoptStatusCode_def SetStatusCode_def split: option.splits)

lemma defaultStatusCode_resp_v:
  "defaultStatusCode req resp (r\<lparr>resp_v := x\<rparr>) = (defaultStatusCode req resp r)\<lparr>resp_v := x\<rparr>"
  by (simp add: defaultStatusCode_def SetStatusCode_def)

lemma adoptRedirect_resp_v:
  "adoptRedirect resp (r\<lparr>resp_v := x\<rparr>) = (adoptRedirect resp r)\<lparr>resp_v := x\<rparr>"
  by (simp add: adoptRedirect_def SetStatusCode_def SetLocation_def split: option.splits)

lemma resolved_resp_v: "resolved req resp (r\<lparr>resp_v := x\<rparr>) = (resolved req resp r)\<lparr>resp_v := x\<rparr>"
  by (simp add: resolved_def adoptStatusCode_resp_v defaultStatusCode_resp_v adoptRedirect_resp_v)

lemma resolved_cong:
  assumes "statusCodeOf x = statusCodeOf y" and "locationOf x = locationOf y"
    and "(x = NilValue) = (y = NilValue)"
  shows "resolved req x r = resolved req y r"
  unfolding resolved_def adoptRedirect_def asRedirectDescriber_def defaultStatusCode_def
    adoptStatusCode_def assms ..

lemma respond_resp_v: "respond c resp (r\<lparr>resp_v := x\<rparr>) = respond c resp r"
  by (simp add: respond_def metaEvents_def cookieEvents_def split: option.splits)

lemma WriteResponse_blind:
  assumes "blindToContentType c ct"
  shows "WriteResponse c req (r\<lparr>resp_v := Dyn (d\<lparr>contentTypeM := ct\<rparr>)\<rparr>) = WriteResponse c req (r\<lparr>resp_v := Dyn d\<rparr>)"
proof (cases "writeResponseM d = None")
  case False
  then show ?thesis
    by (simp add: WriteResponse_delegated delegates_def)
next
  case nd: True
  have f: "fromErr c (d\<lparr>contentTypeM := ct\<rparr>) = fromErr c d"
    and n: "\<And>m. newTransformer c (Dyn (d\<lparr>contentTypeM := ct\<rparr>)) m = newTransformer c (Dyn d) m"
    and en: "\<And>m s. encodeTo c (Dyn (d\<lparr>contentTypeM := ct\<rparr>)) m s = encodeTo c (Dyn d) m s"
    using assms by (simp_all add: blindToContentType_def)
  show ?thesis
  proof (cases "isError d")
    case True
    then have "converted c (Dyn (d\<lparr>contentTypeM := ct\<rparr>)) = converted c (Dyn d)"
      by (simp add: f)
    then show ?thesis
      using nd by (simp add: WriteResponse_not_delegated delegates_def resolved_resp_v respond_resp_v)
  next
    case False
    have rs: "resolved req (Dyn (d\<lparr>contentTypeM := ct\<rparr>)) r' = resolved req (Dyn d) r'" for r'
      by (rule resolved_cong) simp_all
    have wb: "writeBody c (Dyn (d\<lparr>contentTypeM := ct\<rparr>)) m st = writeBody c (Dyn d) m st" for m st
      by (simp add: writeBody_def n en cong: option.case_cong split del: if_split)
    have rp: "respond c (Dyn (d\<lparr>contentTypeM := ct\<rparr>)) r' = respond c (Dyn d) r'" for r'
      unfolding respond_def wb ..
    show ?thesis
      using nd False
      by (simp add: WriteResponse_not_delegated delegates_def rs rp resolved_resp_v respond_resp_v)
  qed
qed

text \<open>
  C10 (as amended): with no explicit content type, and no metadata entry whose canonical key is
  \<open>Content-Type\<close>, the dispatcher sets no \<open>Content-Type\<close> header. The MIME the codec is asked for
  is always the envelope's content type. What \<open>ContentType()\<close> of the wrapped value returns, or
  whether the value has the method, changes nothing in \<open>WriteResponse\<close>, as long as the
  collaborators (error conversion and codec) do not look at it themselves.
\<close>

theorem WriteResponse_ignores_ContentType_capability:
  assumes "WriteResponse c req r = (e, r', evs)"
  shows "(resp_contentType r = [] \<and> (\<forall>vs. HeaderSet ''Content-Type'' vs \<notin> set (metaEvents r)) \<longrightarrow>
            (\<forall>vs. HeaderSet ''Content-Type'' vs \<notin> set evs)) \<and>
         (\<forall>ev\<in>set evs. eventMIME ev = None \<or> eventMIME ev = Some (resp_contentType r)) \<and>
         (\<forall>d ct. resp_v r = Dyn d \<and> blindToContentType c ct \<longrightarrow>
            WriteResponse c req (r\<lparr>resp_v := Dyn (d\<lparr>contentTypeM := ct\<rparr>)\<rparr>) = (e, r', evs))"
proof -
  have a: "HeaderSet ''Content-Type'' vs \<notin> set evs"
    if "resp_contentType r = []" and "\<forall>vs. HeaderSet ''Content-Type'' vs \<notin> set (metaEvents r)" for vs
    using WriteResponse_no_ContentType_header [OF that, of vs c req] assms by simp
  have b: "\<forall>ev\<in>set evs. eventMIME ev = None \<or> eventMIME ev = Some (resp_contentType r)"
    using WriteResponse_events [of _ c req r] assms by simp
  have c: "WriteResponse c req (r\<lparr>resp_v := Dyn (d\<lparr>contentTypeM := ct\<rparr>)\<rparr>) = (e, r', evs)"
    if "resp_v r = Dyn d" and "blindToContentType c ct" for d ct
  proof -
    have "r\<lparr>resp_v := Dyn d\<rparr> = r" using that(1) by simp
    with WriteResponse_blind [OF that(2), where r = r and d = d and req = req] assms
    show ?thesis by simp
  qed
  from a b c show ?thesis by blast
qed

theorem WriteResponse_ignores_ContentType_capability_witness:
  "WriteResponse plainCollab \<lparr>req_Method = ''GET''\<rparr> (Wrap (Dyn plainValue) [])
     = (None, Wrap NilValue [WithStatusCode 200], [TransformerFor [], Encoded [] 200]) \<and>
   WriteResponse plainCollab \<lparr>req_Method = ''GET''\<rparr>
       (Wrap (Dyn (plainValue\<lparr>contentTypeM := Some ''text/csv''\<rparr>)) [])
     = (None, Wrap NilValue [WithStatusCode 200], [TransformerFor [], Encoded [] 200]) \<and>
   blindToContentType plainCollab (Some ''text/csv'') \<and>
   HeaderSet ''Content-Type'' [''text/csv''] \<notin> set [TransformerFor [], Encoded [] 200]"
proof -
  have run: "WriteResponse plainCollab \<lparr>req_Method = ''GET''\<rparr> (Wrap (Dyn plainValue) [])
     = (None, Wrap NilValue [WithStatusCode 200], [TransformerFor [], Encoded [] 200])"
    by (simp add: dispatch_defs setters)
  have blind: "blindToContentType plainCollab (Some ''text/csv'')"
    by (simp add: blindToContentType_def plainCollab_def)
  have v: "resp_v (Wrap (Dyn plainValue) []) = Dyn plainValue"
    by (simp add: Wrap_def)
  have "WriteResponse plainCollab \<lparr>req_Method = ''GET''\<rparr>
       ((Wrap (Dyn plainValue) [])\<lparr>resp_v := Dyn (plainValue\<lparr>contentTypeM := Some ''text/csv''\<rparr>)\<rparr>)
     = (None, Wrap NilValue [WithStatusCode 200], [TransformerFor [], Encoded [] 200])"
    using WriteResponse_ignores_ContentType_capability [OF run] v blind by blast
  then show ?thesis
    using run blind by (simp add: Wrap_def)
qed

lemma canonical_content_type: "CanonicalMIMEHeaderKey ''content-type'' = ''Content-Type''"
  by code_simp

text \<open>
  C10 as stated fails: with no explicit content type, a metadata entry \<open>content-type\<close> is written
  as the \<open>Content-Type\<close> header, before the body step.
\<close>

theorem metadata_ContentType_counterexample:
  "ContentType (Wrap (Dyn plainValue) [WithMetadata ''content-type'' [''text/plain'']]) = [] \<and>
   WriteResponse plainCollab \<lparr>req_Method = ''GET''\<rparr>
     (Wrap (Dyn plainValue) [WithMetadata ''content-type'' [''text/plain'']])
   = (None, Wrap NilValue [WithMetadata ''content-type'' [''text/plain''], WithStatusCode 200],
      [HeaderSet ''Content-Type'' [''text/plain''], TransformerFor [], Encoded [] 200])"
  by (simp add: dispatch_defs setters canonical_content_type)


text \<open>
  C4: after \<open>WriteResponse\<close> returns, whatever it returns (delegation, a normal return or an
  error of a write, encode or copy step), the envelope's wrapped value is nil, and a later
  \<open>Underlying\<close> finds no value.
\<close>

theorem WriteResponse_releases_value:
  "resp_v (fst (snd (WriteResponse c req r))) = NilValue \<and>
   Underlying (fst (snd (WriteResponse c req r))) = None"
  by (simp add: WriteResponse_def Underlying_def split: option.splits)

theorem WriteResponse_releases_value_witness:
  "resp_v (fst (snd (WriteResponse plainCollab \<lparr>req_Method = ''GET''\<rparr> (Wrap (Dyn plainValue) [])))) = NilValue \<and>
   Underlying (Wrap (Dyn plainValue) []) = Some plainValue \<and>
   Underlying (fst (snd (WriteResponse plainCollab \<lparr>req_Method = ''GET''\<rparr> (Wrap (Dyn plainValue) [])))) = None"
  using WriteResponse_releases_value [of plainCollab "\<lparr>req_Method = ''GET''\<rparr>" "Wrap (Dyn plainValue) []"]
  by (simp add: Underlying_def Wrap_def)

end
